theory Spec2Isabelle
  imports Main "HOL-Library.Word"
begin

unbundle bit_operations_syntax

section \<open>The Linode driver for docker-machine\<close>

text \<open>
  The repository holds the driver in two variants. \<^verbatim>\<open>linode.go\<close> is the legacy one, on
  the numeric Linode API (identifiers such as \<open>LinodeId\<close>, jobs, numeric status flags);
  its definitions carry the suffix \<open>_v3\<close>. The unnamed file \<^verbatim>\<open>part_000\<close> is the rewrite
  on the string-typed API (\<open>InstanceID\<close>, \<open>InstanceStatus\<close>); its definitions carry
  the suffix \<open>_v4\<close>. Methods whose text is the same in both files (\<open>GetIP\<close>,
  \<open>GetURL\<close>, \<open>createSSHKey\<close>, ...) are defined once, over the fields both handles share.

  Go's \<open>error\<close> is a value with a message; \<open>nil\<close> is \<open>None\<close>. Debug logging is not
  modelled. Every call that leaves the process (the remote API, the key generator, the
  file system) is answered by an environment, which may answer differently as the
  history of calls grows, and is appended to that history.
\<close>

subsection \<open>Values shared by both variants\<close>

datatype error = Err string

fun Error :: "error \<Rightarrow> string" where
  "Error (Err m) = m"

text \<open>\<open>state.State\<close> of libmachine, all nine values.\<close>

datatype State =
    State_None | Running | Paused | Saved | Stopped | Stopping | Starting
  | State_Error | Timeout

text \<open>The verb \<open>%d\<close> of \<open>fmt\<close>: decimal digits, a minus sign for a negative number.\<close>

definition digit :: "nat \<Rightarrow> char" where
  "digit n = ''0123456789'' ! n"

fun showNat :: "nat \<Rightarrow> string" where
  "showNat n = (if n < 10 then [digit n] else showNat (n div 10) @ [digit (n mod 10)])"

declare showNat.simps [simp del]

definition showInt :: "int \<Rightarrow> string" where
  "showInt i = (if i < 0 then CHR ''-'' # showNat (nat (- i)) else showNat (nat i))"

text \<open>\<open>mcnflag.Flag\<close>: the two kinds of flag the driver declares.\<close>

datatype Flag =
    StringFlag (Name: string) (Usage: string) (EnvVar: string) (StringValue: string)
  | IntFlag (Name: string) (Usage: string) (EnvVar: string) (IntValue: int)

text \<open>\<open>drivers.DriverOptions\<close>: the host's store of option values, read by name.\<close>

record DriverOptions =
  opt_String :: "string \<Rightarrow> string"
  opt_Int :: "string \<Rightarrow> int"

subsection \<open>Data of the remote APIs\<close>

text \<open>Legacy API: an entry of \<open>Ip.List\<close>, a disk job, a job, a Linode.\<close>

record FullIPAddress =
  ip_IPAddress :: string
  ip_IsPublic :: int

record DiskJob =
  dj_JobId :: int
  dj_DiskId :: int

record Job =
  job_JobId :: int
  job_HostSuccess :: string

record Linode =
  linode_Status :: int

text \<open>
  Current API. \<open>linodego.InstanceStatus\<close> is a string type; the library's named
  constants are the strings below.
\<close>

type_synonym InstanceStatus = string

definition InstanceBooting :: InstanceStatus where "InstanceBooting = ''booting''"
definition InstanceRunning :: InstanceStatus where "InstanceRunning = ''running''"
definition InstanceOffline :: InstanceStatus where "InstanceOffline = ''offline''"
definition InstanceShuttingDown :: InstanceStatus where "InstanceShuttingDown = ''shutting_down''"
definition InstanceRebooting :: InstanceStatus where "InstanceRebooting = ''rebooting''"
definition InstanceProvisioning :: InstanceStatus where "InstanceProvisioning = ''provisioning''"
definition InstanceDeleting :: InstanceStatus where "InstanceDeleting = ''deleting''"
definition InstanceMigrating :: InstanceStatus where "InstanceMigrating = ''migrating''"
definition InstanceRebuilding :: InstanceStatus where "InstanceRebuilding = ''rebuilding''"
definition InstanceCloning :: InstanceStatus where "InstanceCloning = ''cloning''"
definition InstanceRestoring :: InstanceStatus where "InstanceRestoring = ''restoring''"

text \<open>
  An address of the field \<open>IPv4\<close> of an instance: its four octets, which is what
  \<open>To4\<close> hands to \<open>Contains\<close> and to \<open>String\<close>.
\<close>

datatype IP = IPv4 "8 word" "8 word" "8 word" "8 word"

fun IP_String :: "IP \<Rightarrow> string" where
  "IP_String (IPv4 a b c d) =
     showNat (unat a) @ ''.'' @ showNat (unat b) @ ''.'' @ showNat (unat c) @ ''.''
       @ showNat (unat d)"

text \<open>\<open>net.IPNet\<close>: a network number and a mask, four octets each.\<close>

record IPNet =
  net_IP :: IP
  net_Mask :: IP

fun Contains :: "IPNet \<Rightarrow> IP \<Rightarrow> bool" where
  "Contains n (IPv4 a b c d) =
     (case (net_IP n, net_Mask n) of
        (IPv4 na nb nc nd, IPv4 ma mb mc md) \<Rightarrow>
          na AND ma = a AND ma \<and> nb AND mb = b AND mb \<and>
          nc AND mc = c AND mc \<and> nd AND md = d AND md)"

text \<open>What \<open>net.ParseCIDR\<close> returns for the three literals of \<open>privateIP\<close>.\<close>

definition private24BitBlock :: IPNet where
  "private24BitBlock = \<lparr>net_IP = IPv4 10 0 0 0, net_Mask = IPv4 255 0 0 0\<rparr>"

definition private20BitBlock :: IPNet where
  "private20BitBlock = \<lparr>net_IP = IPv4 172 16 0 0, net_Mask = IPv4 255 240 0 0\<rparr>"

definition private16BitBlock :: IPNet where
  "private16BitBlock = \<lparr>net_IP = IPv4 192 168 0 0, net_Mask = IPv4 255 255 0 0\<rparr>"

definition privateIP :: "IP \<Rightarrow> bool" where
  "privateIP ip =
     (Contains private24BitBlock ip \<or> Contains private20BitBlock ip
        \<or> Contains private16BitBlock ip)"

record Instance =
  inst_ID :: int
  inst_IPv4 :: "IP list"
  inst_Status :: InstanceStatus

record InstanceCreateOptions =
  co_Region :: string
  co_Type :: string
  co_Label :: string
  co_RootPass :: string
  co_AuthorizedKeys :: "string list"
  co_Image :: string
  co_SwapSize :: int

subsection \<open>Calls and environments\<close>

text \<open>
  One constructor for each call that leaves the process, with the arguments the driver
  passes. A Go \<open>map[string]string\<close> argument is an association list.
\<close>

datatype call =
    GenerateSSHKey_call string
  | ReadFile_call string
  | Linode_Create_call int int int
  | Linode_Update_call int "(string \<times> string) list"
  | Ip_List_call int int
  | Disk_CreateFromDistribution_call int int string int "(string \<times> string) list"
  | Disk_Create_call int string string int
  | Config_Create_call int int string "(string \<times> string) list"
  | Linode_Boot_call int int
  | Job_List_call int int bool
  | Linode_List_call int
  | Linode_Shutdown_call int
  | Linode_Delete_call int bool
  | Linode_Reboot_call int int
  | CreateInstance_call InstanceCreateOptions
  | GetInstance_call int
  | BootInstance_call int int
  | ShutdownInstance_call int
  | DeleteInstance_call int
  | RebootInstance_call int
  | WaitForInstanceStatus_call int InstanceStatus int

text \<open>
  The part of the environment both variants use: key generation, the file system, and
  \<open>ResolveStorePath\<close> of the host's \<open>BaseDriver\<close>. Each answer may depend on the calls
  made so far.
\<close>

record host =
  GenerateSSHKey :: "call list \<Rightarrow> string \<Rightarrow> error option"
  ReadFile :: "call list \<Rightarrow> string \<Rightarrow> error + string"
  ResolveStorePath :: "string \<Rightarrow> string \<Rightarrow> string \<Rightarrow> string"

text \<open>
  The legacy API. \<open>select_ticks\<close> answers for Go's timers: for a \<open>waitForJob\<close> that begins
  after the given calls, how many times the \<open>select\<close> delivers the one-second tick
  before it delivers the timeout.
\<close>

record env_v3 = host +
  Linode_Create :: "call list \<Rightarrow> int \<Rightarrow> int \<Rightarrow> int \<Rightarrow> error + int"
  Linode_Update :: "call list \<Rightarrow> int \<Rightarrow> (string \<times> string) list \<Rightarrow> error option"
  Ip_List :: "call list \<Rightarrow> int \<Rightarrow> int \<Rightarrow> error + FullIPAddress list"
  Disk_CreateFromDistribution ::
    "call list \<Rightarrow> int \<Rightarrow> int \<Rightarrow> string \<Rightarrow> int \<Rightarrow> (string \<times> string) list \<Rightarrow> error + DiskJob"
  Disk_Create :: "call list \<Rightarrow> int \<Rightarrow> string \<Rightarrow> string \<Rightarrow> int \<Rightarrow> error + DiskJob"
  Config_Create :: "call list \<Rightarrow> int \<Rightarrow> int \<Rightarrow> string \<Rightarrow> (string \<times> string) list \<Rightarrow> error option"
  Linode_Boot :: "call list \<Rightarrow> int \<Rightarrow> int \<Rightarrow> error + int"
  Job_List :: "call list \<Rightarrow> int \<Rightarrow> int \<Rightarrow> bool \<Rightarrow> error + Job list"
  Linode_List :: "call list \<Rightarrow> int \<Rightarrow> error + Linode list"
  Linode_Shutdown :: "call list \<Rightarrow> int \<Rightarrow> error option"
  Linode_Delete :: "call list \<Rightarrow> int \<Rightarrow> bool \<Rightarrow> error option"
  Linode_Reboot :: "call list \<Rightarrow> int \<Rightarrow> int \<Rightarrow> error option"
  select_ticks :: "call list \<Rightarrow> nat"

text \<open>The current API; \<open>WaitForInstanceStatus\<close> is the library's own poller.\<close>

record env_v4 = host +
  CreateInstance :: "call list \<Rightarrow> InstanceCreateOptions \<Rightarrow> error + Instance"
  GetInstance :: "call list \<Rightarrow> int \<Rightarrow> error + Instance"
  BootInstance :: "call list \<Rightarrow> int \<Rightarrow> int \<Rightarrow> error option"
  ShutdownInstance :: "call list \<Rightarrow> int \<Rightarrow> error option"
  DeleteInstance :: "call list \<Rightarrow> int \<Rightarrow> error option"
  RebootInstance :: "call list \<Rightarrow> int \<Rightarrow> error option"
  WaitForInstanceStatus :: "call list \<Rightarrow> int \<Rightarrow> InstanceStatus \<Rightarrow> int \<Rightarrow> error option"

subsection \<open>The handle\<close>

text \<open>
  The fields of \<open>drivers.BaseDriver\<close> that the driver touches, and the fields both
  \<open>Driver\<close> structs declare. The zero value of a Go string is the empty string, of an
  \<open>int\<close> it is 0, of a pointer it is \<open>nil\<close>.
\<close>

record BaseDriver =
  MachineName :: string
  StorePath :: string
  SSHUser :: string
  SSHKeyPath :: string
  IPAddress :: string
  DockerPort :: int
  RootPassword :: string
  SSHPort :: int

record Driver_v3 = BaseDriver +
  client_v3 :: "string option"
  APIKey :: string
  LinodeId :: int
  LinodeLabel :: string
  DataCenterId :: int
  PlanId :: int
  PaymentTerm :: int
  DistributionId :: int
  KernelId :: int

record Driver_v4 = BaseDriver +
  client_v4 :: "unit option"
  APIToken :: string
  InstanceID :: int
  InstanceLabel :: string
  Region :: string
  InstanceType :: string
  InstanceImage :: string
  InstanceKernel :: string
  SwapSize :: int

definition NewDriver_v3 :: "string \<Rightarrow> string \<Rightarrow> Driver_v3" where
  "NewDriver_v3 hostName storePath =
     \<lparr>MachineName = hostName, StorePath = storePath, SSHUser = '''', SSHKeyPath = '''',
      IPAddress = '''', DockerPort = 0, RootPassword = '''', SSHPort = 0,
      client_v3 = None, APIKey = '''', LinodeId = 0, LinodeLabel = '''', DataCenterId = 0,
      PlanId = 0, PaymentTerm = 0, DistributionId = 0, KernelId = 0\<rparr>"

definition NewDriver_v4 :: "string \<Rightarrow> string \<Rightarrow> Driver_v4" where
  "NewDriver_v4 hostName storePath =
     \<lparr>MachineName = hostName, StorePath = storePath, SSHUser = '''', SSHKeyPath = '''',
      IPAddress = '''', DockerPort = 0, RootPassword = '''', SSHPort = 0,
      client_v4 = None, APIToken = '''', InstanceID = 0, InstanceLabel = '''', Region = '''',
      InstanceType = '''', InstanceImage = '''', InstanceKernel = '''', SwapSize = 0\<rparr>"

text \<open>
  \<open>getClient\<close>: the client is built on first use and kept. The legacy client is
  built from the key, which it keeps; the current one from a pointer to the handle's
  token, so it keeps no copy.
\<close>

definition getClient_v3 :: "Driver_v3 \<Rightarrow> Driver_v3" where
  "getClient_v3 d = (if client_v3 d = None then d\<lparr>client_v3 := Some (APIKey d)\<rparr> else d)"

definition getClient_v4 :: "Driver_v4 \<Rightarrow> Driver_v4" where
  "getClient_v4 d = (if client_v4 d = None then d\<lparr>client_v4 := Some ()\<rparr> else d)"

subsection \<open>Methods that are the same in both variants\<close>

definition DriverName :: string where
  "DriverName = ''linode''"

text \<open>\<open>GetIP\<close>: the cached address, or an error while none is recorded.\<close>

definition GetIP ::
  "'a BaseDriver_scheme \<Rightarrow> call list
     \<Rightarrow> (string \<times> error option) \<times> 'a BaseDriver_scheme \<times> call list" where
  "GetIP d tr =
     (if IPAddress d = '''' then (('''', Some (Err ''IP address is not set'')), d, tr)
      else ((IPAddress d, None), d, tr))"

definition GetSSHHostname ::
  "'a BaseDriver_scheme \<Rightarrow> call list
     \<Rightarrow> (string \<times> error option) \<times> 'a BaseDriver_scheme \<times> call list" where
  "GetSSHHostname d tr = GetIP d tr"

definition GetURL ::
  "'a BaseDriver_scheme \<Rightarrow> call list
     \<Rightarrow> (string \<times> error option) \<times> 'a BaseDriver_scheme \<times> call list" where
  "GetURL d tr =
     (case GetIP d tr of
        ((ip, Some err), d', tr') \<Rightarrow> (('''', Some err), d', tr')
      | ((ip, None), d', tr') \<Rightarrow>
          if ip = '''' then (('''', None), d', tr')
          else ((''tcp://'' @ ip @ '':'' @ showInt (DockerPort d'), None), d', tr'))"

definition GetSSHUsername ::
  "'a BaseDriver_scheme \<Rightarrow> call list \<Rightarrow> string \<times> 'a BaseDriver_scheme \<times> call list" where
  "GetSSHUsername d tr =
     (let d' = (if SSHUser d = '''' then d\<lparr>SSHUser := ''root''\<rparr> else d)
      in (SSHUser d', d', tr))"

definition PreCreateCheck ::
  "'a BaseDriver_scheme \<Rightarrow> call list \<Rightarrow> error option \<times> 'a BaseDriver_scheme \<times> call list" where
  "PreCreateCheck d tr = (None, d, tr)"

text \<open>
  \<open>GetSSHKeyPath\<close> of the host's \<open>BaseDriver\<close> fills the path in on first use;
  \<open>publicSSHKeyPath\<close> appends the suffix.
\<close>

definition GetSSHKeyPath ::
  "'e host_scheme \<Rightarrow> 'a BaseDriver_scheme \<Rightarrow> string \<times> 'a BaseDriver_scheme" where
  "GetSSHKeyPath env d =
     (if SSHKeyPath d = ''''
      then (let p = ResolveStorePath env (StorePath d) (MachineName d) ''id_rsa''
            in (p, d\<lparr>SSHKeyPath := p\<rparr>))
      else (SSHKeyPath d, d))"

definition publicSSHKeyPath ::
  "'e host_scheme \<Rightarrow> 'a BaseDriver_scheme \<Rightarrow> string \<times> 'a BaseDriver_scheme" where
  "publicSSHKeyPath env d = (case GetSSHKeyPath env d of (p, d') \<Rightarrow> (p @ ''.pub'', d'))"

definition createSSHKey ::
  "'e host_scheme \<Rightarrow> 'a BaseDriver_scheme \<Rightarrow> call list
     \<Rightarrow> (error + string) \<times> 'a BaseDriver_scheme \<times> call list" where
  "createSSHKey env d tr =
     (case GetSSHKeyPath env d of
        (p, d1) \<Rightarrow>
          (case GenerateSSHKey env tr p of
             Some err \<Rightarrow> (Inl err, d1, tr @ [GenerateSSHKey_call p])
           | None \<Rightarrow>
               (case publicSSHKeyPath env d1 of
                  (pub, d2) \<Rightarrow>
                    (case ReadFile env (tr @ [GenerateSSHKey_call p]) pub of
                       Inl err \<Rightarrow>
                         (Inl err, d2, tr @ [GenerateSSHKey_call p, ReadFile_call pub])
                     | Inr publicKey \<Rightarrow>
                         (Inr publicKey, d2,
                          tr @ [GenerateSSHKey_call p, ReadFile_call pub])))))"

subsection \<open>The current variant (\<^verbatim>\<open>part_000\<close>)\<close>

definition GetCreateFlags_v4 :: "Flag list" where
  "GetCreateFlags_v4 =
     [StringFlag ''linode-api-token'' ''Linode API Token'' ''LINODE_TOKEN'' '''',
      StringFlag ''linode-root-pass'' ''Root Password'' ''LINODE_ROOT_PASSWORD'' '''',
      StringFlag ''linode-label'' ''Linode Instance Label'' ''LINODE_LABEL'' '''',
      StringFlag ''linode-region'' ''Linode Region'' ''LINODE_REGION'' ''us-east'',
      StringFlag ''linode-type'' ''Linode Instance Type'' ''LINODE_INSTANCE_TYPE''
        ''g6-standard-4'',
      IntFlag ''linode-ssh-port'' ''Linode Instance SSH Port'' ''LINODE_SSH_PORT'' 22,
      StringFlag ''linode-image'' ''Linode Instance Image'' ''LINODE_IMAGE'' ''linode/debian8'',
      StringFlag ''linode-kernel'' ''Linode Instance Kernel'' ''LINODE_KERNEL'' ''linode/grub2'',
      IntFlag ''linode-docker-port'' ''Docker Port'' ''LINODE_DOCKER_PORT'' 2376,
      IntFlag ''linode-swap-size'' ''Linode Instance Swap Size (MB)'' ''LINODE_SWAP_SIZE'' 512]"

definition SetConfigFromFlags_v4 ::
  "DriverOptions \<Rightarrow> Driver_v4 \<Rightarrow> call list \<Rightarrow> error option \<times> Driver_v4 \<times> call list" where
  "SetConfigFromFlags_v4 flags d tr =
     (let d' = d\<lparr>APIToken := opt_String flags ''linode-token'',
                 Region := opt_String flags ''linode-region'',
                 InstanceType := opt_String flags ''linode-type'',
                 RootPassword := opt_String flags ''linode-root-pass'',
                 SSHPort := opt_Int flags ''linode-ssh-port'',
                 InstanceImage := opt_String flags ''linode-image'',
                 InstanceKernel := opt_String flags ''linode-kernel'',
                 InstanceLabel := opt_String flags ''linode-label'',
                 SwapSize := opt_Int flags ''linode-swap-size'',
                 DockerPort := opt_Int flags ''linode-docker-port''\<rparr>
      in if APIToken d' = ''''
         then (Some (Err ''linode driver requires the --linode-token option''), d', tr)
         else if RootPassword d' = ''''
         then (Some (Err ''linode driver requires the --linode-root-pass option''), d', tr)
         else (None, d', tr))"

text \<open>
  The loop of \<open>Create\<close> over \<open>linode.IPv4\<close>: the first address that \<open>privateIP\<close>
  rejects is recorded and the loop is left; the second argument is \<open>d.IPAddress\<close>.
\<close>

fun Create_addresses_v4 :: "IP list \<Rightarrow> string \<Rightarrow> string" where
  "Create_addresses_v4 [] cur = cur"
| "Create_addresses_v4 (address # rest) cur =
     (if \<not> privateIP address then IP_String address else Create_addresses_v4 rest cur)"

text \<open>
  \<open>Create\<close>, in two parts: up to the answer of the allocation, and the whole. No
  statement assigns \<open>d.InstanceID\<close>. The test \<open>err != nil\<close> after the log line finds
  \<open>err\<close> nil, the allocation having succeeded, and is left out.
\<close>

definition Create_allocate_v4 ::
  "env_v4 \<Rightarrow> Driver_v4 \<Rightarrow> call list \<Rightarrow> (error + Instance) \<times> Driver_v4 \<times> call list" where
  "Create_allocate_v4 env d tr =
     (case createSSHKey env d tr of
        (Inl err, d1, tr1) \<Rightarrow> (Inl err, d1, tr1)
      | (Inr publicKey, d1, tr1) \<Rightarrow>
          (let d2 = getClient_v4 d1;
               createOpts = \<lparr>co_Region = Region d2, co_Type = InstanceType d2,
                             co_Label = InstanceLabel d2, co_RootPass = RootPassword d2,
                             co_AuthorizedKeys = [publicKey], co_Image = InstanceImage d2,
                             co_SwapSize = SwapSize d2\<rparr>;
               tr2 = tr1 @ [CreateInstance_call createOpts]
           in (case CreateInstance env tr1 createOpts of
                 Inl err \<Rightarrow> (Inl err, d2, tr2)
               | Inr linode \<Rightarrow> (Inr linode, d2, tr2))))"

definition Create_v4 ::
  "env_v4 \<Rightarrow> Driver_v4 \<Rightarrow> call list \<Rightarrow> error option \<times> Driver_v4 \<times> call list" where
  "Create_v4 env d tr =
     (case Create_allocate_v4 env d tr of
        (Inl err, d2, tr2) \<Rightarrow> (Some err, d2, tr2)
      | (Inr linode, d2, tr2) \<Rightarrow>
          (let d3 = d2\<lparr>IPAddress := Create_addresses_v4 (inst_IPv4 linode) (IPAddress d2)\<rparr>
           in if IPAddress d3 = ''''
              then (Some (Err ''Linode IP Address is not found''), d3, tr2)
              else (let tr3 = tr2 @ [WaitForInstanceStatus_call (InstanceID d3)
                                       InstanceRunning 120]
                    in (case WaitForInstanceStatus env tr2 (InstanceID d3)
                               InstanceRunning 120 of
                          Some err \<Rightarrow>
                            (Some (Err (''wait for machine running failed: '' @ Error err)),
                             d3, tr3)
                        | None \<Rightarrow> (None, d3, tr3)))))"

definition GetState_v4 ::
  "env_v4 \<Rightarrow> Driver_v4 \<Rightarrow> call list \<Rightarrow> (State \<times> error option) \<times> Driver_v4 \<times> call list" where
  "GetState_v4 env d tr =
     (let d' = getClient_v4 d; tr' = tr @ [GetInstance_call (InstanceID d')]
      in (case GetInstance env tr (InstanceID d') of
            Inl err \<Rightarrow> ((State_Error, Some err), d', tr')
          | Inr linode \<Rightarrow>
              (let status = inst_Status linode
               in if status = InstanceRunning then ((Running, None), d', tr')
                  else if status = InstanceOffline \<or> status = InstanceRebuilding
                          \<or> status = InstanceMigrating
                  then ((Stopped, None), d', tr')
                  else if status = InstanceShuttingDown \<or> status = InstanceDeleting
                  then ((Stopping, None), d', tr')
                  else if status = InstanceProvisioning \<or> status = InstanceRebooting
                          \<or> status = InstanceBooting \<or> status = InstanceCloning
                          \<or> status = InstanceRestoring
                  then ((Starting, None), d', tr')
                  else ((State_None, None), d', tr'))))"

definition Start_v4 ::
  "env_v4 \<Rightarrow> Driver_v4 \<Rightarrow> call list \<Rightarrow> error option \<times> Driver_v4 \<times> call list" where
  "Start_v4 env d tr =
     (let d' = getClient_v4 d
      in (BootInstance env tr (InstanceID d') 0, d', tr @ [BootInstance_call (InstanceID d') 0]))"

definition Stop_v4 ::
  "env_v4 \<Rightarrow> Driver_v4 \<Rightarrow> call list \<Rightarrow> error option \<times> Driver_v4 \<times> call list" where
  "Stop_v4 env d tr =
     (let d' = getClient_v4 d
      in (ShutdownInstance env tr (InstanceID d'), d',
          tr @ [ShutdownInstance_call (InstanceID d')]))"

definition Remove_v4 ::
  "env_v4 \<Rightarrow> Driver_v4 \<Rightarrow> call list \<Rightarrow> error option \<times> Driver_v4 \<times> call list" where
  "Remove_v4 env d tr =
     (let d' = getClient_v4 d; tr' = tr @ [DeleteInstance_call (InstanceID d')]
      in (case DeleteInstance env tr (InstanceID d') of
            Some err \<Rightarrow> (Some err, d', tr')
          | None \<Rightarrow> (None, d', tr')))"

definition Restart_v4 ::
  "env_v4 \<Rightarrow> Driver_v4 \<Rightarrow> call list \<Rightarrow> error option \<times> Driver_v4 \<times> call list" where
  "Restart_v4 env d tr =
     (let d' = getClient_v4 d
      in (RebootInstance env tr (InstanceID d'), d',
          tr @ [RebootInstance_call (InstanceID d')]))"

definition Kill_v4 ::
  "env_v4 \<Rightarrow> Driver_v4 \<Rightarrow> call list \<Rightarrow> error option \<times> Driver_v4 \<times> call list" where
  "Kill_v4 env d tr =
     (let d' = getClient_v4 d
      in (ShutdownInstance env tr (InstanceID d'), d',
          tr @ [ShutdownInstance_call (InstanceID d')]))"

subsection \<open>The legacy variant (\<^verbatim>\<open>linode.go\<close>)\<close>

text \<open>
  Indexing a slice out of range panics in Go. A method that can panic returns an
  \<open>outcome\<close>: the panic, or what the method returns.
\<close>

datatype 'a outcome = Panic string | Return 'a

definition GetCreateFlags_v3 :: "Flag list" where
  "GetCreateFlags_v3 =
     [StringFlag ''linode-api-key'' ''Linode API Key'' ''LINODE_API_KEY'' '''',
      StringFlag ''linode-root-pass'' ''Root password'' ''LINODE_ROOT_PASSWORD'' '''',
      StringFlag ''linode-label'' ''Linode label'' ''LINODE_LABEL'' '''',
      IntFlag ''linode-datacenter-id'' ''Linode Data Center Id'' ''LINODE_DATACENTER_ID'' 2,
      IntFlag ''linode-plan-id'' ''Linode plan id'' ''LINODE_PLAN_ID'' 1,
      IntFlag ''linode-payment-term'' ''Linode Payment term'' ''LINODE_PAYMENT_TERM'' 1,
      IntFlag ''linode-ssh-port'' ''Linode SSH Port'' ''LINODE_SSH_PORT'' 22,
      IntFlag ''linode-distribution-id'' ''Linode Distribution Id'' ''LINODE_DISTRIBUTION_ID''
        140,
      IntFlag ''linode-kernel-id'' ''Linode Kernel Id'' ''LINODE_KERNEL_ID'' 210,
      IntFlag ''linode-docker-port'' ''Docker Port'' ''LINODE_DOCKER_PORT'' 2376]"

definition SetConfigFromFlags_v3 ::
  "DriverOptions \<Rightarrow> Driver_v3 \<Rightarrow> call list \<Rightarrow> error option \<times> Driver_v3 \<times> call list" where
  "SetConfigFromFlags_v3 flags d tr =
     (let d' = d\<lparr>APIKey := opt_String flags ''linode-api-key'',
                 DataCenterId := opt_Int flags ''linode-datacenter-id'',
                 PlanId := opt_Int flags ''linode-plan-id'',
                 PaymentTerm := opt_Int flags ''linode-payment-term'',
                 RootPassword := opt_String flags ''linode-root-pass'',
                 SSHPort := opt_Int flags ''linode-ssh-port'',
                 DistributionId := opt_Int flags ''linode-distribution-id'',
                 KernelId := opt_Int flags ''linode-kernel-id'',
                 LinodeLabel := opt_String flags ''linode-label'',
                 DockerPort := opt_Int flags ''linode-docker-port''\<rparr>
      in if APIKey d' = ''''
         then (Some (Err ''linode driver requires the --linode-api-key option''), d', tr)
         else if RootPassword d' = ''''
         then (Some (Err ''linode driver requires the --linode-root-pass option''), d', tr)
         else (None, d', tr))"

text \<open>
  \<open>waitForJob\<close>. The loop body is the \<open>tick\<close> case of the \<open>select\<close>; the natural number
  counts the ticks still to be delivered before the timeout case is taken. The timer
  fires in the end, so the count is finite; how large it is, and how much time passes,
  is not part of the model. The test \<open>len(Jobs) < 0\<close> is written as in the source;
  \<open>Jobs[0]\<close> is evaluated when it fails.
\<close>

fun waitForJob_loop ::
  "env_v3 \<Rightarrow> int \<Rightarrow> string \<Rightarrow> int \<Rightarrow> nat \<Rightarrow> Driver_v3 \<Rightarrow> call list
     \<Rightarrow> error option outcome \<times> Driver_v3 \<times> call list" where
  "waitForJob_loop env jobId jobName timeOutSeconds 0 d tr =
     (Return (Some (Err (''Job '' @ jobName @ '' timed out after '' @ showInt timeOutSeconds
                           @ '' seconds.''))), d, tr)"
| "waitForJob_loop env jobId jobName timeOutSeconds (Suc n) d tr =
     (let d' = getClient_v3 d; tr' = tr @ [Job_List_call (LinodeId d') jobId False]
      in (case Job_List env tr (LinodeId d') jobId False of
            Inl err \<Rightarrow> (Return (Some err), d', tr')
          | Inr Jobs \<Rightarrow>
              if int (length Jobs) < 0
              then (Return (Some (Err (''Job '' @ jobName @ '' is not found.''))), d', tr')
              else (case Jobs of
                      [] \<Rightarrow> (Panic ''runtime error: index out of range'', d', tr')
                    | job # _ \<Rightarrow>
                        if job_JobId job \<noteq> jobId
                        then (Return (Some (Err (''Job '' @ jobName @ '' is not found.''))),
                              d', tr')
                        else if job_HostSuccess job = ''1'' then (Return None, d', tr')
                        else waitForJob_loop env jobId jobName timeOutSeconds n d' tr')))"

definition waitForJob ::
  "env_v3 \<Rightarrow> Driver_v3 \<Rightarrow> call list \<Rightarrow> int \<Rightarrow> string \<Rightarrow> int
     \<Rightarrow> error option outcome \<times> Driver_v3 \<times> call list" where
  "waitForJob env d tr jobId jobName timeOutSeconds =
     waitForJob_loop env jobId jobName timeOutSeconds (select_ticks env tr) d tr"

definition GetState_v3 ::
  "env_v3 \<Rightarrow> Driver_v3 \<Rightarrow> call list
     \<Rightarrow> (State \<times> error option) outcome \<times> Driver_v3 \<times> call list" where
  "GetState_v3 env d tr =
     (let d' = getClient_v3 d; tr' = tr @ [Linode_List_call (LinodeId d')]
      in (case Linode_List env tr (LinodeId d') of
            Inl err \<Rightarrow> (Return (State_Error, Some err), d', tr')
          | Inr Linodes \<Rightarrow>
              (case Linodes of
                 [] \<Rightarrow> (Panic ''runtime error: index out of range'', d', tr')
               | linode # _ \<Rightarrow>
                   (let status = linode_Status linode
                    in if status = - 1 \<or> status = 0 then (Return (Starting, None), d', tr')
                       else if status = 1 then (Return (Running, None), d', tr')
                       else if status = - 2 \<or> status = 2 \<or> status = 4
                       then (Return (Stopped, None), d', tr')
                       else if status = 3 then (Return (Stopping, None), d', tr')
                       else (Return (State_None, None), d', tr')))))"

text \<open>
  \<open>drivers.MachineInState\<close> and \<open>mcnutils.WaitForSpecific\<close> of the host library:
  the state is queried up to \<open>maxAttempts\<close> times; an error of the query is logged and
  the attempt counts as "not yet"; when the attempts are used up the error is
  "Maximum number of retries exceeded".
\<close>

definition MachineInState_v3 ::
  "env_v3 \<Rightarrow> State \<Rightarrow> Driver_v3 \<Rightarrow> call list \<Rightarrow> bool outcome \<times> Driver_v3 \<times> call list" where
  "MachineInState_v3 env desiredState d tr =
     (case GetState_v3 env d tr of
        (Panic m, d', tr') \<Rightarrow> (Panic m, d', tr')
      | (Return (currentState, err), d', tr') \<Rightarrow> (Return (currentState = desiredState), d', tr'))"

fun WaitForSpecific_loop ::
  "('d \<Rightarrow> call list \<Rightarrow> bool outcome \<times> 'd \<times> call list) \<Rightarrow> int \<Rightarrow> nat \<Rightarrow> 'd \<Rightarrow> call list
     \<Rightarrow> error option outcome \<times> 'd \<times> call list" where
  "WaitForSpecific_loop f maxAttempts 0 d tr =
     (Return (Some (Err (''Maximum number of retries ('' @ showInt maxAttempts
                           @ '') exceeded''))), d, tr)"
| "WaitForSpecific_loop f maxAttempts (Suc n) d tr =
     (case f d tr of
        (Panic m, d', tr') \<Rightarrow> (Panic m, d', tr')
      | (Return stop, d', tr') \<Rightarrow>
          if stop then (Return None, d', tr')
          else WaitForSpecific_loop f maxAttempts n d' tr')"

definition WaitForSpecific ::
  "('d \<Rightarrow> call list \<Rightarrow> bool outcome \<times> 'd \<times> call list) \<Rightarrow> int \<Rightarrow> 'd \<Rightarrow> call list
     \<Rightarrow> error option outcome \<times> 'd \<times> call list" where
  "WaitForSpecific f maxAttempts d tr = WaitForSpecific_loop f maxAttempts (nat maxAttempts) d tr"

text \<open>
  The loop of \<open>Create\<close> over \<open>FullIPAddresses\<close>: every entry flagged public overwrites
  \<open>d.IPAddress\<close>; the loop has no \<open>break\<close>.
\<close>

fun Create_addresses_v3 :: "FullIPAddress list \<Rightarrow> string \<Rightarrow> string" where
  "Create_addresses_v3 [] cur = cur"
| "Create_addresses_v3 (fullIpAddress # rest) cur =
     Create_addresses_v3 rest
       (if ip_IsPublic fullIpAddress = 1 then ip_IPAddress fullIpAddress else cur)"

text \<open>
  The later parts of \<open>Create\<close>: from the boot configuration on, and from the primary disk
  on. \<open>d.client\<close> is set when they use it, \<open>getClient\<close> having
  run before the allocation.
\<close>

definition Create_boot_v3 ::
  "env_v3 \<Rightarrow> Driver_v3 \<Rightarrow> call list \<Rightarrow> int \<Rightarrow> int
     \<Rightarrow> error option outcome \<times> Driver_v3 \<times> call list" where
  "Create_boot_v3 env d tr diskId swapDiskId =
     (let args2 = [(''DiskList'', showInt diskId @ '','' @ showInt swapDiskId),
                   (''RootDeviceNum'', ''1''), (''RootDeviceRO'', ''true''),
                   (''helper_distro'', ''true'')];
          kernelId = KernelId d;
          tr1 = tr @ [Config_Create_call (LinodeId d) kernelId
                        ''My Docker Machine Configuration'' args2]
      in (case Config_Create env tr (LinodeId d) kernelId
                 ''My Docker Machine Configuration'' args2 of
            Some err \<Rightarrow> (Return (Some err), d, tr1)
          | None \<Rightarrow>
              (let tr2 = tr1 @ [Linode_Boot_call (LinodeId d) (- 1)]
               in (case Linode_Boot env tr1 (LinodeId d) (- 1) of
                     Inl err \<Rightarrow> (Return (Some err), d, tr2)
                   | Inr jobId \<Rightarrow>
                       (case waitForJob env d tr2 jobId ''Booting linode'' 60 of
                          (Panic m, d3, tr3) \<Rightarrow> (Panic m, d3, tr3)
                        | (Return (Some err), d3, tr3) \<Rightarrow> (Return (Some err), d3, tr3)
                        | (Return None, d3, tr3) \<Rightarrow>
                            (case WaitForSpecific (MachineInState_v3 env Running) 120 d3 tr3 of
                               (Panic m, d4, tr4) \<Rightarrow> (Panic m, d4, tr4)
                             | (Return (Some err), d4, tr4) \<Rightarrow>
                                 (Return (Some (Err (''wait for machine running failed: ''
                                                       @ Error err))), d4, tr4)
                             | (Return None, d4, tr4) \<Rightarrow> (Return None, d4, tr4)))))))"

definition Create_disks_v3 ::
  "env_v3 \<Rightarrow> Driver_v3 \<Rightarrow> call list \<Rightarrow> string
     \<Rightarrow> error option outcome \<times> Driver_v3 \<times> call list" where
  "Create_disks_v3 env d tr publicKey =
     (let args = [(''rootPass'', RootPassword d), (''rootSSHKey'', publicKey)];
          distributionId = DistributionId d;
          tr1 = tr @ [Disk_CreateFromDistribution_call distributionId (LinodeId d)
                        ''Primary Disk'' (24576 - 256) args]
      in (case Disk_CreateFromDistribution env tr distributionId (LinodeId d)
                 ''Primary Disk'' (24576 - 256) args of
            Inl err \<Rightarrow> (Return (Some err), d, tr1)
          | Inr createDiskJobResponse \<Rightarrow>
              (let jobId = dj_JobId createDiskJobResponse;
                   diskId = dj_DiskId createDiskJobResponse
               in (case waitForJob env d tr1 jobId ''Create Disk Task'' 60 of
                     (Panic m, d2, tr2) \<Rightarrow> (Panic m, d2, tr2)
                   | (Return (Some err), d2, tr2) \<Rightarrow> (Return (Some err), d2, tr2)
                   | (Return None, d2, tr2) \<Rightarrow>
                       (let tr3 = tr2 @ [Disk_Create_call (LinodeId d2) ''swap''
                                           ''Swap Disk'' 256]
                        in (case Disk_Create env tr2 (LinodeId d2) ''swap'' ''Swap Disk'' 256 of
                              Inl err \<Rightarrow> (Return (Some err), d2, tr3)
                            | Inr createDiskJobResponse2 \<Rightarrow>
                                (let jobId2 = dj_JobId createDiskJobResponse2;
                                     swapDiskId = dj_DiskId createDiskJobResponse2
                                 in (case waitForJob env d2 tr3 jobId2
                                            ''Create Swap Disk Task'' 60 of
                                       (Panic m, d4, tr4) \<Rightarrow> (Panic m, d4, tr4)
                                     | (Return (Some err), d4, tr4) \<Rightarrow>
                                         (Return (Some err), d4, tr4)
                                     | (Return None, d4, tr4) \<Rightarrow>
                                         Create_boot_v3 env d4 tr4 diskId swapDiskId))))))))"

text \<open>
  The first part of \<open>Create\<close>: key generation, allocation, label, and the answer of
  \<open>Ip.List\<close>. The identifier is assigned as soon as the allocation has answered.
\<close>

definition Create_discover_v3 ::
  "env_v3 \<Rightarrow> Driver_v3 \<Rightarrow> call list
     \<Rightarrow> (error + string \<times> FullIPAddress list) \<times> Driver_v3 \<times> call list" where
  "Create_discover_v3 env d tr =
     (case createSSHKey env d tr of
        (Inl err, d1, tr1) \<Rightarrow> (Inl err, d1, tr1)
      | (Inr publicKey, d1, tr1) \<Rightarrow>
          (let d2 = getClient_v3 d1;
               tr2 = tr1 @ [Linode_Create_call (DataCenterId d2) (PlanId d2) (PaymentTerm d2)]
           in (case Linode_Create env tr1 (DataCenterId d2) (PlanId d2) (PaymentTerm d2) of
                 Inl err \<Rightarrow> (Inl err, d2, tr2)
               | Inr linodeId \<Rightarrow>
                   (let d3 = d2\<lparr>LinodeId := linodeId\<rparr>;
                        label = [(''Label'', LinodeLabel d3)];
                        update = (if LinodeLabel d3 \<noteq> ''''
                                  then Linode_Update env tr2 (LinodeId d3) label else None);
                        tr3 = (if LinodeLabel d3 \<noteq> ''''
                               then tr2 @ [Linode_Update_call (LinodeId d3) label] else tr2)
                    in (case update of
                          Some err \<Rightarrow> (Inl err, d3, tr3)
                        | None \<Rightarrow>
                            (let tr4 = tr3 @ [Ip_List_call (LinodeId d3) (- 1)]
                             in (case Ip_List env tr3 (LinodeId d3) (- 1) of
                                   Inl err \<Rightarrow> (Inl err, d3, tr4)
                                 | Inr FullIPAddresses \<Rightarrow>
                                     (Inr (publicKey, FullIPAddresses), d3, tr4))))))))"

definition Create_v3 ::
  "env_v3 \<Rightarrow> Driver_v3 \<Rightarrow> call list \<Rightarrow> error option outcome \<times> Driver_v3 \<times> call list" where
  "Create_v3 env d tr =
     (case Create_discover_v3 env d tr of
        (Inl err, d3, tr4) \<Rightarrow> (Return (Some err), d3, tr4)
      | (Inr (publicKey, FullIPAddresses), d3, tr4) \<Rightarrow>
          (let d4 = d3\<lparr>IPAddress := Create_addresses_v3 FullIPAddresses (IPAddress d3)\<rparr>
           in if IPAddress d4 = ''''
              then (Return (Some (Err ''Linode IP Address is not found.'')), d4, tr4)
              else Create_disks_v3 env d4 tr4 publicKey))"

definition Start_v3 ::
  "env_v3 \<Rightarrow> Driver_v3 \<Rightarrow> call list \<Rightarrow> error option \<times> Driver_v3 \<times> call list" where
  "Start_v3 env d tr =
     (let d' = getClient_v3 d; tr' = tr @ [Linode_Boot_call (LinodeId d') (- 1)]
      in (case Linode_Boot env tr (LinodeId d') (- 1) of
            Inl err \<Rightarrow> (Some err, d', tr')
          | Inr _ \<Rightarrow> (None, d', tr')))"

definition Stop_v3 ::
  "env_v3 \<Rightarrow> Driver_v3 \<Rightarrow> call list \<Rightarrow> error option \<times> Driver_v3 \<times> call list" where
  "Stop_v3 env d tr =
     (let d' = getClient_v3 d
      in (Linode_Shutdown env tr (LinodeId d'), d', tr @ [Linode_Shutdown_call (LinodeId d')]))"

definition Remove_v3 ::
  "env_v3 \<Rightarrow> Driver_v3 \<Rightarrow> call list \<Rightarrow> error option \<times> Driver_v3 \<times> call list" where
  "Remove_v3 env d tr =
     (let d' = getClient_v3 d; tr' = tr @ [Linode_Delete_call (LinodeId d') True]
      in (case Linode_Delete env tr (LinodeId d') True of
            Some err \<Rightarrow> (Some err, d', tr')
          | None \<Rightarrow> (None, d', tr')))"

definition Restart_v3 ::
  "env_v3 \<Rightarrow> Driver_v3 \<Rightarrow> call list \<Rightarrow> error option \<times> Driver_v3 \<times> call list" where
  "Restart_v3 env d tr =
     (let d' = getClient_v3 d
      in (Linode_Reboot env tr (LinodeId d') (- 1), d',
          tr @ [Linode_Reboot_call (LinodeId d') (- 1)]))"

definition Kill_v3 ::
  "env_v3 \<Rightarrow> Driver_v3 \<Rightarrow> call list \<Rightarrow> error option \<times> Driver_v3 \<times> call list" where
  "Kill_v3 env d tr =
     (let d' = getClient_v3 d
      in (Linode_Shutdown env tr (LinodeId d'), d', tr @ [Linode_Shutdown_call (LinodeId d')]))"

subsection \<open>Operations that may follow \<open>Create\<close>\<close>

text \<open>
  The verbs the host may call on a handle after \<open>Create\<close>, and the handle and the
  history of calls that each of them leaves behind, whatever it returns.
\<close>

datatype verb =
    Start_verb | Stop_verb | Restart_verb | Kill_verb | Remove_verb
  | GetState_verb | GetIP_verb | GetURL_verb

fun after_v3 :: "env_v3 \<Rightarrow> verb \<Rightarrow> Driver_v3 \<times> call list \<Rightarrow> Driver_v3 \<times> call list" where
  "after_v3 env Start_verb (d, tr) = snd (Start_v3 env d tr)"
| "after_v3 env Stop_verb (d, tr) = snd (Stop_v3 env d tr)"
| "after_v3 env Restart_verb (d, tr) = snd (Restart_v3 env d tr)"
| "after_v3 env Kill_verb (d, tr) = snd (Kill_v3 env d tr)"
| "after_v3 env Remove_verb (d, tr) = snd (Remove_v3 env d tr)"
| "after_v3 env GetState_verb (d, tr) = snd (GetState_v3 env d tr)"
| "after_v3 env GetIP_verb (d, tr) = snd (GetIP d tr)"
| "after_v3 env GetURL_verb (d, tr) = snd (GetURL d tr)"

fun after_v4 :: "env_v4 \<Rightarrow> verb \<Rightarrow> Driver_v4 \<times> call list \<Rightarrow> Driver_v4 \<times> call list" where
  "after_v4 env Start_verb (d, tr) = snd (Start_v4 env d tr)"
| "after_v4 env Stop_verb (d, tr) = snd (Stop_v4 env d tr)"
| "after_v4 env Restart_verb (d, tr) = snd (Restart_v4 env d tr)"
| "after_v4 env Kill_verb (d, tr) = snd (Kill_v4 env d tr)"
| "after_v4 env Remove_verb (d, tr) = snd (Remove_v4 env d tr)"
| "after_v4 env GetState_verb (d, tr) = snd (GetState_v4 env d tr)"
| "after_v4 env GetIP_verb (d, tr) = snd (GetIP d tr)"
| "after_v4 env GetURL_verb (d, tr) = snd (GetURL d tr)"

text \<open>A sequence of verbs, applied from left to right.\<close>

definition after_all_v3 ::
  "env_v3 \<Rightarrow> verb list \<Rightarrow> Driver_v3 \<times> call list \<Rightarrow> Driver_v3 \<times> call list" where
  "after_all_v3 env vs s = foldl (\<lambda>s v. after_v3 env v s) s vs"

definition after_all_v4 ::
  "env_v4 \<Rightarrow> verb list \<Rightarrow> Driver_v4 \<times> call list \<Rightarrow> Driver_v4 \<times> call list" where
  "after_all_v4 env vs s = foldl (\<lambda>s v. after_v4 env v s) s vs"

subsection \<open>Environments for concrete runs\<close>

text \<open>
  An environment of the current API in which key generation and every lifecycle call
  succeed, the allocation and the status query answer with the given instance, and the
  library's poller answers as given.
\<close>

definition example_env_v4 :: "Instance \<Rightarrow> error option \<Rightarrow> env_v4" where
  "example_env_v4 inst waited =
     \<lparr>GenerateSSHKey = (\<lambda>h p. None),
      ReadFile = (\<lambda>h p. Inr ''ssh-rsa AAAA''),
      ResolveStorePath = (\<lambda>store machine file. store @ ''/machines/'' @ machine @ ''/'' @ file),
      CreateInstance = (\<lambda>h opts. Inr inst),
      GetInstance = (\<lambda>h i. Inr inst),
      BootInstance = (\<lambda>h i c. None),
      ShutdownInstance = (\<lambda>h i. None),
      DeleteInstance = (\<lambda>h i. None),
      RebootInstance = (\<lambda>h i. None),
      WaitForInstanceStatus = (\<lambda>h i s t. waited)\<rparr>"

text \<open>
  An environment of the legacy API in which every call succeeds: the allocation answers
  with Linode 4711, \<open>Ip.List\<close> with the given entries, \<open>Job.List\<close> with the given
  jobs for the job asked for, \<open>Linode.List\<close> with the given Linodes, and every
  \<open>waitForJob\<close> sees the given number of ticks before its timeout.
\<close>

definition example_env_v3 ::
  "FullIPAddress list \<Rightarrow> (int \<Rightarrow> Job list) \<Rightarrow> Linode list \<Rightarrow> nat \<Rightarrow> env_v3" where
  "example_env_v3 ips jobs linodes ticks =
     \<lparr>GenerateSSHKey = (\<lambda>h p. None),
      ReadFile = (\<lambda>h p. Inr ''ssh-rsa AAAA''),
      ResolveStorePath = (\<lambda>store machine file. store @ ''/machines/'' @ machine @ ''/'' @ file),
      Linode_Create = (\<lambda>h dc plan term. Inr 4711),
      Linode_Update = (\<lambda>h i args. None),
      Ip_List = (\<lambda>h i ip. Inr ips),
      Disk_CreateFromDistribution =
        (\<lambda>h dist i label size args. Inr \<lparr>dj_JobId = 1, dj_DiskId = 10\<rparr>),
      Disk_Create = (\<lambda>h i type label size. Inr \<lparr>dj_JobId = 2, dj_DiskId = 11\<rparr>),
      Config_Create = (\<lambda>h i kernel label args. None),
      Linode_Boot = (\<lambda>h i config. Inr 3),
      Job_List = (\<lambda>h i jobId pending. Inr (jobs jobId)),
      Linode_List = (\<lambda>h i. Inr linodes),
      Linode_Shutdown = (\<lambda>h i. None),
      Linode_Delete = (\<lambda>h i skip. None),
      Linode_Reboot = (\<lambda>h i config. None),
      select_ticks = (\<lambda>h. ticks)\<rparr>"

text \<open>A job list that reports the job asked for as done.\<close>

definition job_done :: "int \<Rightarrow> Job list" where
  "job_done jobId = [\<lparr>job_JobId = jobId, job_HostSuccess = ''1''\<rparr>]"

text \<open>
  The host's option store for a command line: the value given for a name, and the empty
  string or 0 for every other name.
\<close>

definition options_of :: "(string \<times> string) list \<Rightarrow> (string \<times> int) list \<Rightarrow> DriverOptions" where
  "options_of strs ints =
     \<lparr>opt_String = (\<lambda>n. case map_of strs n of Some v \<Rightarrow> v | None \<Rightarrow> ''''),
      opt_Int = (\<lambda>n. case map_of ints n of Some v \<Rightarrow> v | None \<Rightarrow> 0)\<rparr>"

subsection \<open>Failing calls in a history\<close>

text \<open>
  The error, if any, with which the environment answers a call made after the given
  history.
\<close>

fun failed :: "error + 'a \<Rightarrow> error option" where
  "failed (Inl e) = Some e"
| "failed (Inr x) = None"










text \<open>History \<open>h'\<close> extends history \<open>h\<close> by allowed calls only.\<close>

definition extends_with :: "(call \<Rightarrow> bool) \<Rightarrow> call list \<Rightarrow> call list \<Rightarrow> bool" where
  "extends_with allowed h h' = (\<exists>new. h' = h @ new \<and> list_all allowed new)"


section \<open>Properties\<close>

subsection \<open>Auxiliary facts\<close>


lemma LinodeId_getClient_v3 [simp]: "LinodeId (getClient_v3 d) = LinodeId d"
  by (simp add: getClient_v3_def)

lemma IPAddress_getClient_v3 [simp]: "IPAddress (getClient_v3 d) = IPAddress d"
  by (simp add: getClient_v3_def)

lemma InstanceID_getClient_v4 [simp]: "InstanceID (getClient_v4 d) = InstanceID d"
  by (simp add: getClient_v4_def)

lemma IPAddress_getClient_v4 [simp]: "IPAddress (getClient_v4 d) = IPAddress d"
  by (simp add: getClient_v4_def)

subsection \<open>Stop and Kill\<close>

text \<open>
  C9. In both variants \<open>Kill\<close> and \<open>Stop\<close> are the same operation: each makes the one
  shutdown call of the API with the handle's identifier, returns what that call
  returns, and leaves the same handle and the same history of calls.
\<close>

theorem Kill_eq_Stop:
  "Kill_v3 env3 d3 tr = Stop_v3 env3 d3 tr \<and>
   Stop_v3 env3 d3 tr =
     (Linode_Shutdown env3 tr (LinodeId d3), getClient_v3 d3,
      tr @ [Linode_Shutdown_call (LinodeId d3)]) \<and>
   Kill_v4 env4 d4 tr = Stop_v4 env4 d4 tr \<and>
   Stop_v4 env4 d4 tr =
     (ShutdownInstance env4 tr (InstanceID d4), getClient_v4 d4,
      tr @ [ShutdownInstance_call (InstanceID d4)])"
  by (simp add: Kill_v3_def Stop_v3_def Kill_v4_def Stop_v4_def)

subsection \<open>The cached address\<close>

lemma after_v3_keeps:
  "after_v3 env v (d, tr) = (d', tr') \<Longrightarrow> IPAddress d' = IPAddress d \<and> LinodeId d' = LinodeId d"
  by (cases v)
     (auto simp: Start_v3_def Stop_v3_def Restart_v3_def Kill_v3_def Remove_v3_def
        GetState_v3_def GetIP_def GetURL_def Let_def
        split: sum.splits option.splits list.splits if_splits)

lemma after_v4_keeps:
  "after_v4 env v (d, tr) = (d', tr') \<Longrightarrow>
     IPAddress d' = IPAddress d \<and> InstanceID d' = InstanceID d"
  by (cases v)
     (auto simp: Start_v4_def Stop_v4_def Restart_v4_def Kill_v4_def Remove_v4_def
        GetState_v4_def GetIP_def GetURL_def Let_def
        split: sum.splits option.splits list.splits if_splits)

lemma after_all_v3_keeps:
  "after_all_v3 env vs (d, tr) = (d', tr') \<Longrightarrow>
     IPAddress d' = IPAddress d \<and> LinodeId d' = LinodeId d"
proof (induction vs arbitrary: d tr)
  case Nil
  then show ?case by (simp add: after_all_v3_def)
next
  case (Cons v vs)
  obtain d1 tr1 where s: "after_v3 env v (d, tr) = (d1, tr1)"
    by (cases "after_v3 env v (d, tr)")
  with Cons.prems have "after_all_v3 env vs (d1, tr1) = (d', tr')"
    by (simp add: after_all_v3_def)
  from Cons.IH[OF this] after_v3_keeps[OF s] show ?case by simp
qed

lemma after_all_v4_keeps:
  "after_all_v4 env vs (d, tr) = (d', tr') \<Longrightarrow>
     IPAddress d' = IPAddress d \<and> InstanceID d' = InstanceID d"
proof (induction vs arbitrary: d tr)
  case Nil
  then show ?case by (simp add: after_all_v4_def)
next
  case (Cons v vs)
  obtain d1 tr1 where s: "after_v4 env v (d, tr) = (d1, tr1)"
    by (cases "after_v4 env v (d, tr)")
  with Cons.prems have "after_all_v4 env vs (d1, tr1) = (d', tr')"
    by (simp add: after_all_v4_def)
  from Cons.IH[OF this] after_v4_keeps[OF s] show ?case by simp
qed

text \<open>
  C8. On a handle whose address is recorded, \<open>GetIP\<close> returns that address without an
  error and leaves the handle and the history of calls as they were, so it makes no
  call; and after any sequence of the other verbs (anything but \<open>Create\<close>) it returns
  the same address again. This holds for both variants.
\<close>

theorem GetIP_cached:
  assumes "IPAddress d3 \<noteq> ''''" and "IPAddress d4 \<noteq> ''''"
  shows "GetIP d3 tr3 = ((IPAddress d3, None), d3, tr3) \<and>
         (case after_all_v3 env3 vs3 (d3, tr3) of
            (d3', tr3') \<Rightarrow> GetIP d3' tr3' = ((IPAddress d3, None), d3', tr3')) \<and>
         GetIP d4 tr4 = ((IPAddress d4, None), d4, tr4) \<and>
         (case after_all_v4 env4 vs4 (d4, tr4) of
            (d4', tr4') \<Rightarrow> GetIP d4' tr4' = ((IPAddress d4, None), d4', tr4'))"
proof -
  obtain d3' tr3' where a3: "after_all_v3 env3 vs3 (d3, tr3) = (d3', tr3')"
    by (cases "after_all_v3 env3 vs3 (d3, tr3)")
  obtain d4' tr4' where a4: "after_all_v4 env4 vs4 (d4, tr4) = (d4', tr4')"
    by (cases "after_all_v4 env4 vs4 (d4, tr4)")
  from assms a3 a4 after_all_v3_keeps[OF a3] after_all_v4_keeps[OF a4]
  show ?thesis by (simp add: GetIP_def)
qed

theorem GetIP_cached_witness:
  "IPAddress ((NewDriver_v3 ''m'' ''/s'')\<lparr>IPAddress := ''203.0.113.5''\<rparr>) \<noteq> '''' \<and>
   IPAddress ((NewDriver_v4 ''m'' ''/s'')\<lparr>IPAddress := ''203.0.113.6''\<rparr>) \<noteq> '''' \<and>
   (case after_all_v3 (example_env_v3 [] job_done [\<lparr>linode_Status = 1\<rparr>] 3)
           [GetState_verb, Stop_verb, GetIP_verb]
           ((NewDriver_v3 ''m'' ''/s'')\<lparr>IPAddress := ''203.0.113.5''\<rparr>, []) of
      (d', tr') \<Rightarrow> GetIP d' tr' = ((''203.0.113.5'', None), d', tr')) \<and>
   (case after_all_v4
           (example_env_v4 \<lparr>inst_ID = 7, inst_IPv4 = [], inst_Status = InstanceRunning\<rparr> None)
           [Restart_verb, GetURL_verb]
           ((NewDriver_v4 ''m'' ''/s'')\<lparr>IPAddress := ''203.0.113.6''\<rparr>, []) of
      (d', tr') \<Rightarrow> GetIP d' tr' = ((''203.0.113.6'', None), d', tr'))"
  using GetIP_cached[of "(NewDriver_v3 ''m'' ''/s'')\<lparr>IPAddress := ''203.0.113.5''\<rparr>"
      "(NewDriver_v4 ''m'' ''/s'')\<lparr>IPAddress := ''203.0.113.6''\<rparr>" "[]"
      "example_env_v3 [] job_done [\<lparr>linode_Status = 1\<rparr>] 3"
      "[GetState_verb, Stop_verb, GetIP_verb]" "[]"
      "example_env_v4 \<lparr>inst_ID = 7, inst_IPv4 = [], inst_Status = InstanceRunning\<rparr> None"
      "[Restart_verb, GetURL_verb]"]
  by (simp add: NewDriver_v3_def NewDriver_v4_def)

subsection \<open>Configuration binding\<close>

text \<open>
  C5. When the credential the binding reads (option \<open>linode-api-key\<close> in the legacy
  variant, \<open>linode-token\<close> in the current one) or the root password (option
  \<open>linode-root-pass\<close>) is the empty string, \<open>SetConfigFromFlags\<close> returns the
  validation error that names the first missing option, and the history of calls is
  the one it was given: no call has been made.
\<close>

theorem SetConfigFromFlags_requires:
  assumes "opt_String flags3 ''linode-api-key'' = '''' \<or>
           opt_String flags3 ''linode-root-pass'' = ''''"
    and "opt_String flags4 ''linode-token'' = '''' \<or>
         opt_String flags4 ''linode-root-pass'' = ''''"
  shows "(\<exists>d'. SetConfigFromFlags_v3 flags3 d3 tr3 =
            (Some (Err (if opt_String flags3 ''linode-api-key'' = ''''
                        then ''linode driver requires the --linode-api-key option''
                        else ''linode driver requires the --linode-root-pass option'')),
             d', tr3)) \<and>
         (\<exists>d'. SetConfigFromFlags_v4 flags4 d4 tr4 =
            (Some (Err (if opt_String flags4 ''linode-token'' = ''''
                        then ''linode driver requires the --linode-token option''
                        else ''linode driver requires the --linode-root-pass option'')),
             d', tr4))"
  using assms by (auto simp: SetConfigFromFlags_v3_def SetConfigFromFlags_v4_def Let_def)

theorem SetConfigFromFlags_requires_witness:
  "(opt_String (options_of [(''linode-api-key'', ''k'')] []) ''linode-api-key'' = '''' \<or>
    opt_String (options_of [(''linode-api-key'', ''k'')] []) ''linode-root-pass'' = '''') \<and>
   (opt_String (options_of [(''linode-root-pass'', ''pw'')] []) ''linode-token'' = '''' \<or>
    opt_String (options_of [(''linode-root-pass'', ''pw'')] []) ''linode-root-pass'' = '''') \<and>
   fst (SetConfigFromFlags_v3 (options_of [(''linode-api-key'', ''k'')] [])
          (NewDriver_v3 ''m'' ''/s'') []) =
     Some (Err ''linode driver requires the --linode-root-pass option'') \<and>
   snd (snd (SetConfigFromFlags_v3 (options_of [(''linode-api-key'', ''k'')] [])
          (NewDriver_v3 ''m'' ''/s'') [])) = [] \<and>
   fst (SetConfigFromFlags_v4 (options_of [(''linode-root-pass'', ''pw'')] [])
          (NewDriver_v4 ''m'' ''/s'') []) =
     Some (Err ''linode driver requires the --linode-token option'') \<and>
   snd (snd (SetConfigFromFlags_v4 (options_of [(''linode-root-pass'', ''pw'')] [])
          (NewDriver_v4 ''m'' ''/s'') [])) = []"
  using SetConfigFromFlags_requires[of "options_of [(''linode-api-key'', ''k'')] []"
      "options_of [(''linode-root-pass'', ''pw'')] []"
      "NewDriver_v3 ''m'' ''/s''" "[]" "NewDriver_v4 ''m'' ''/s''" "[]"]
  by (auto simp: options_of_def)

text \<open>
  The legacy binding reads only options that \<open>GetCreateFlags\<close> declares: two option
  stores that agree on the declared names are bound alike.
\<close>

lemma SetConfigFromFlags_v3_reads_declared:
  assumes "\<forall>n \<in> set (map Name GetCreateFlags_v3).
             opt_String f n = opt_String g n \<and> opt_Int f n = opt_Int g n"
  shows "SetConfigFromFlags_v3 f d tr = SetConfigFromFlags_v3 g d tr"
  using assms by (simp add: SetConfigFromFlags_v3_def GetCreateFlags_v3_def)

text \<open>
  C10. The current variant declares the credential as \<open>linode-api-token\<close> and reads it
  as \<open>linode-token\<close>, a name that \<open>GetCreateFlags\<close> does not declare. With the token
  and the root password given under their declared names, the binding finds no
  credential and returns the validation error.
\<close>

theorem SetConfigFromFlags_v4_reads_undeclared:
  "''linode-api-token'' \<in> set (map Name GetCreateFlags_v4) \<and>
   ''linode-token'' \<notin> set (map Name GetCreateFlags_v4) \<and>
   SetConfigFromFlags_v4
     (options_of [(''linode-api-token'', ''secret''), (''linode-root-pass'', ''pw'')] [])
     (NewDriver_v4 ''m'' ''/s'') [] =
     (Some (Err ''linode driver requires the --linode-token option''),
      (NewDriver_v4 ''m'' ''/s'')\<lparr>RootPassword := ''pw''\<rparr>, [])"
  by (simp add: GetCreateFlags_v4_def SetConfigFromFlags_v4_def options_of_def
      NewDriver_v4_def)

subsection \<open>The state mapping\<close>




text \<open>
  When the query fails, the answer is "error" together with the error of the query;
  when the legacy API returns an empty list of Linodes, \<open>GetState\<close> panics.
\<close>

lemma GetState_query_fails:
  "GetInstance env4 tr4 (InstanceID d4) = Inl e \<Longrightarrow>
     fst (GetState_v4 env4 d4 tr4) = (State_Error, Some e)"
  "Linode_List env3 tr3 (LinodeId d3) = Inl e \<Longrightarrow>
     fst (GetState_v3 env3 d3 tr3) = Return (State_Error, Some e)"
  "Linode_List env3 tr3 (LinodeId d3) = Inr [] \<Longrightarrow>
     fst (GetState_v3 env3 d3 tr3) = Panic ''runtime error: index out of range''"
  by (simp_all add: GetState_v4_def GetState_v3_def)

subsection \<open>The job poller\<close>

lemma waitForJob_tick:
  "select_ticks env tr = Suc n \<Longrightarrow>
     waitForJob env d tr jobId jobName timeOutSeconds =
       (case Job_List env tr (LinodeId d) jobId False of
          Inl err \<Rightarrow> (Return (Some err), getClient_v3 d, tr @ [Job_List_call (LinodeId d) jobId False])
        | Inr Jobs \<Rightarrow>
            (case Jobs of
               [] \<Rightarrow> (Panic ''runtime error: index out of range'', getClient_v3 d,
                      tr @ [Job_List_call (LinodeId d) jobId False])
             | job # _ \<Rightarrow>
                 if job_JobId job \<noteq> jobId
                 then (Return (Some (Err (''Job '' @ jobName @ '' is not found.''))),
                       getClient_v3 d, tr @ [Job_List_call (LinodeId d) jobId False])
                 else if job_HostSuccess job = ''1''
                 then (Return None, getClient_v3 d, tr @ [Job_List_call (LinodeId d) jobId False])
                 else waitForJob_loop env jobId jobName timeOutSeconds n (getClient_v3 d)
                        (tr @ [Job_List_call (LinodeId d) jobId False])))"
  by (simp add: waitForJob_def Let_def split: sum.splits list.splits)

text \<open>
  The half of C3 that the code keeps: when the first job returned is not the job asked
  for, the poller returns the "not found" error.
\<close>

lemma waitForJob_other_job:
  assumes "select_ticks env tr = Suc n"
    and "Job_List env tr (LinodeId d) jobId False = Inr (job # rest)"
    and "job_JobId job \<noteq> jobId"
  shows "fst (waitForJob env d tr jobId jobName timeOutSeconds) =
           Return (Some (Err (''Job '' @ jobName @ '' is not found.'')))"
  using assms by (simp add: waitForJob_tick)

lemma waitForJob_no_jobs:
  assumes "select_ticks env tr = Suc n"
    and "Job_List env tr (LinodeId d) jobId False = Inr []"
  shows "fst (waitForJob env d tr jobId jobName timeOutSeconds) =
           Panic ''runtime error: index out of range''"
  using assms by (simp add: waitForJob_tick)

text \<open>
  C3. The guard \<open>len(Jobs) < 0\<close> never holds, so an empty job list reaches \<open>Jobs[0]\<close>:
  on the first poll of job 42, answered with an empty list, \<open>waitForJob\<close> panics with an
  index out of range instead of returning the "not found" error.
\<close>

theorem waitForJob_empty_list_panics:
  "waitForJob (example_env_v3 [] (\<lambda>jobId. []) [] 5) (NewDriver_v3 ''m'' ''/s'') [] 42
     ''Create Disk Task'' 60 =
     (Panic ''runtime error: index out of range'',
      (NewDriver_v3 ''m'' ''/s'')\<lparr>client_v3 := Some ''''\<rparr>, [Job_List_call 0 42 False])"
  by (simp add: waitForJob_tick[where n = 4] example_env_v3_def NewDriver_v3_def
      getClient_v3_def)

subsection \<open>The identifier of the instance\<close>

text \<open>
  C7. The current variant never assigns \<open>InstanceID\<close>. The allocation answers with
  instance 4711 at a public address, the poller reports the instance as running, and
  \<open>Create\<close> succeeds: the handle records the address, its identifier is still 0, and it
  was instance 0 that the poller was asked about.
\<close>

theorem Create_v4_drops_identifier:
  "Create_v4
     (example_env_v4
        \<lparr>inst_ID = 4711, inst_IPv4 = [IPv4 203 0 113 9], inst_Status = InstanceRunning\<rparr> None)
     (NewDriver_v4 ''m'' ''/s'') [] =
     (None,
      (NewDriver_v4 ''m'' ''/s'')
        \<lparr>SSHKeyPath := ''/s/machines/m/id_rsa'', IPAddress := ''203.0.113.9'',
         client_v4 := Some ()\<rparr>,
      [GenerateSSHKey_call ''/s/machines/m/id_rsa'', ReadFile_call ''/s/machines/m/id_rsa.pub'',
       CreateInstance_call
         \<lparr>co_Region = '''', co_Type = '''', co_Label = '''', co_RootPass = '''',
          co_AuthorizedKeys = [''ssh-rsa AAAA''], co_Image = '''', co_SwapSize = 0\<rparr>,
       WaitForInstanceStatus_call 0 InstanceRunning 120]) \<and>
   InstanceID (fst (snd (Create_v4
     (example_env_v4
        \<lparr>inst_ID = 4711, inst_IPv4 = [IPv4 203 0 113 9], inst_Status = InstanceRunning\<rparr> None)
     (NewDriver_v4 ''m'' ''/s'') []))) = 0"
  by (simp add: Create_v4_def createSSHKey_def GetSSHKeyPath_def publicSSHKeyPath_def
      example_env_v4_def NewDriver_v4_def getClient_v4_def Let_def privateIP_def
      private24BitBlock_def private20BitBlock_def private16BitBlock_def showNat.simps digit_def
      Create_allocate_v4_def)

subsection \<open>What \<open>Create\<close> leaves of the handle\<close>


lemma waitForJob_loop_keeps:
  "waitForJob_loop env jobId jobName t n d tr = (r, d', tr') \<Longrightarrow>
     IPAddress d' = IPAddress d \<and> LinodeId d' = LinodeId d"
proof (induction n arbitrary: d tr)
  case 0
  then show ?case by simp
next
  case (Suc n)
  show ?case
  proof (cases "Job_List env tr (LinodeId d) jobId False")
    case (Inl e)
    with Suc.prems show ?thesis by (auto simp: Let_def)
  next
    case (Inr Jobs)
    show ?thesis
    proof (cases Jobs)
      case Nil
      with Inr Suc.prems show ?thesis by (auto simp: Let_def)
    next
      case (Cons job rest)
      show ?thesis
      proof (cases "job_JobId job \<noteq> jobId \<or> job_HostSuccess job = ''1''")
        case True
        with Inr Cons Suc.prems show ?thesis by (auto simp: Let_def split: if_splits)
      next
        case False
        with Inr Cons Suc.prems
        have "waitForJob_loop env jobId jobName t n (getClient_v3 d)
                (tr @ [Job_List_call (LinodeId d) jobId False]) = (r, d', tr')"
          by (simp add: Let_def)
        from Suc.IH[OF this] show ?thesis by simp
      qed
    qed
  qed
qed

lemma waitForJob_keeps:
  "waitForJob env d tr jobId jobName t = (r, d', tr') \<Longrightarrow>
     IPAddress d' = IPAddress d \<and> LinodeId d' = LinodeId d"
  unfolding waitForJob_def by (rule waitForJob_loop_keeps)

lemma MachineInState_v3_keeps:
  "MachineInState_v3 env st d tr = (r, d', tr') \<Longrightarrow>
     IPAddress d' = IPAddress d \<and> LinodeId d' = LinodeId d"
  by (auto simp: MachineInState_v3_def GetState_v3_def Let_def
      split: sum.splits list.splits if_splits)

lemma WaitForSpecific_loop_keeps:
  "WaitForSpecific_loop (MachineInState_v3 env st) m n d tr = (r, d', tr') \<Longrightarrow>
     IPAddress d' = IPAddress d \<and> LinodeId d' = LinodeId d"
proof (induction n arbitrary: d tr)
  case 0
  then show ?case by simp
next
  case (Suc n)
  obtain b d1 tr1 where f: "MachineInState_v3 env st d tr = (b, d1, tr1)"
    by (cases "MachineInState_v3 env st d tr")
  note k = MachineInState_v3_keeps[OF f]
  show ?case
  proof (cases b)
    case (Panic m')
    with f Suc.prems k show ?thesis by simp
  next
    case (Return stop)
    show ?thesis
    proof (cases stop)
      case True
      with Return f Suc.prems k show ?thesis by simp
    next
      case False
      with Return f Suc.prems
      have "WaitForSpecific_loop (MachineInState_v3 env st) m n d1 tr1 = (r, d', tr')"
        by simp
      from Suc.IH[OF this] k show ?thesis by simp
    qed
  qed
qed

lemma Create_boot_v3_keeps:
  assumes "Create_boot_v3 env d tr diskId swapDiskId = (r, d', tr')"
  shows "IPAddress d' = IPAddress d \<and> LinodeId d' = LinodeId d"
proof (cases "Config_Create env tr (LinodeId d) (KernelId d)
                ''My Docker Machine Configuration''
                [(''DiskList'', showInt diskId @ '','' @ showInt swapDiskId),
                 (''RootDeviceNum'', ''1''), (''RootDeviceRO'', ''true''),
                 (''helper_distro'', ''true'')]")
  case (Some e)
  with assms show ?thesis by (simp add: Create_boot_v3_def Let_def)
next
  case None
  note cfg = this
  let ?tr1 = "tr @ [Config_Create_call (LinodeId d) (KernelId d)
                ''My Docker Machine Configuration''
                [(''DiskList'', showInt diskId @ '','' @ showInt swapDiskId),
                 (''RootDeviceNum'', ''1''), (''RootDeviceRO'', ''true''),
                 (''helper_distro'', ''true'')]]"
  show ?thesis
  proof (cases "Linode_Boot env ?tr1 (LinodeId d) (- 1)")
    case (Inl e)
    with cfg assms show ?thesis by (simp add: Create_boot_v3_def Let_def)
  next
    case (Inr jobId)
    note boot = this
    let ?tr2 = "?tr1 @ [Linode_Boot_call (LinodeId d) (- 1)]"
    obtain r3 d3 tr3 where w: "waitForJob env d ?tr2 jobId ''Booting linode'' 60 = (r3, d3, tr3)"
      by (cases "waitForJob env d ?tr2 jobId ''Booting linode'' 60")
    note k3 = waitForJob_keeps[OF w]
    show ?thesis
    proof (cases "r3 = Return None")
      case False
      with cfg boot w assms k3 show ?thesis
        by (auto simp: Create_boot_v3_def Let_def split: outcome.splits option.splits)
    next
      case True
      obtain r4 d4 tr4 where
        s: "WaitForSpecific (MachineInState_v3 env Running) 120 d3 tr3 = (r4, d4, tr4)"
        by (cases "WaitForSpecific (MachineInState_v3 env Running) 120 d3 tr3")
      then have k4: "IPAddress d4 = IPAddress d3 \<and> LinodeId d4 = LinodeId d3"
        unfolding WaitForSpecific_def by (rule WaitForSpecific_loop_keeps)
      from True cfg boot w s assms k3 k4 show ?thesis
        by (auto simp: Create_boot_v3_def Let_def split: outcome.splits option.splits)
    qed
  qed
qed

lemma Create_disks_v3_keeps:
  assumes "Create_disks_v3 env d tr publicKey = (r, d', tr')"
  shows "IPAddress d' = IPAddress d \<and> LinodeId d' = LinodeId d"
proof -
  let ?args = "[(''rootPass'', RootPassword d), (''rootSSHKey'', publicKey)]"
  let ?tr1 = "tr @ [Disk_CreateFromDistribution_call (DistributionId d) (LinodeId d)
                      ''Primary Disk'' (24576 - 256) ?args]"
  show ?thesis
  proof (cases "Disk_CreateFromDistribution env tr (DistributionId d) (LinodeId d)
                  ''Primary Disk'' (24576 - 256) ?args")
    case (Inl e)
    with assms show ?thesis by (simp add: Create_disks_v3_def Let_def)
  next
    case (Inr job1)
    note disk = this
    obtain r2 d2 tr2 where
      w1: "waitForJob env d ?tr1 (dj_JobId job1) ''Create Disk Task'' 60 = (r2, d2, tr2)"
      by (cases "waitForJob env d ?tr1 (dj_JobId job1) ''Create Disk Task'' 60")
    note k2 = waitForJob_keeps[OF w1]
    show ?thesis
    proof (cases "r2 = Return None")
      case False
      with disk w1 assms k2 show ?thesis
        by (auto simp: Create_disks_v3_def Let_def split: outcome.splits option.splits)
    next
      case True
      note ok1 = this
      let ?tr3 = "tr2 @ [Disk_Create_call (LinodeId d2) ''swap'' ''Swap Disk'' 256]"
      show ?thesis
      proof (cases "Disk_Create env tr2 (LinodeId d2) ''swap'' ''Swap Disk'' 256")
        case (Inl e)
        with ok1 disk w1 assms k2 show ?thesis
          by (simp add: Create_disks_v3_def Let_def)
      next
        case (Inr job2)
        note swap = this
        obtain r4 d4 tr4 where
          w2: "waitForJob env d2 ?tr3 (dj_JobId job2) ''Create Swap Disk Task'' 60 =
                 (r4, d4, tr4)"
          by (cases "waitForJob env d2 ?tr3 (dj_JobId job2) ''Create Swap Disk Task'' 60")
        note k4 = waitForJob_keeps[OF w2]
        show ?thesis
        proof (cases "r4 = Return None")
          case False
          with ok1 disk swap w1 w2 assms k2 k4 show ?thesis
            by (auto simp: Create_disks_v3_def Let_def split: outcome.splits option.splits)
        next
          case True
          with ok1 disk swap w1 w2 assms
          have "Create_boot_v3 env d4 tr4 (dj_DiskId job1) (dj_DiskId job2) = (r, d', tr')"
            by (simp add: Create_disks_v3_def Let_def)
          from Create_boot_v3_keeps[OF this] k2 k4 show ?thesis by simp
        qed
      qed
    qed
  qed
qed

subsection \<open>Private addresses\<close>








subsection \<open>The address that \<open>Create\<close> records\<close>



lemma createSSHKey_keeps_v4:
  "createSSHKey env d tr = (x, d', tr') \<Longrightarrow>
     IPAddress d' = IPAddress d \<and> InstanceID d' = InstanceID d"
  by (auto simp: createSSHKey_def GetSSHKeyPath_def publicSSHKeyPath_def Let_def
      split: option.splits sum.splits if_splits)

lemma Create_allocate_v4_keeps:
  "Create_allocate_v4 env d tr = (x, d', tr') \<Longrightarrow>
     IPAddress d' = IPAddress d \<and> InstanceID d' = InstanceID d"
proof -
  assume a: "Create_allocate_v4 env d tr = (x, d', tr')"
  obtain y d1 tr1 where k: "createSSHKey env d tr = (y, d1, tr1)"
    by (cases "createSSHKey env d tr")
  from createSSHKey_keeps_v4[OF k]
  have "IPAddress d1 = IPAddress d" and "InstanceID d1 = InstanceID d"
    by simp_all
  with a k show ?thesis
    by (auto simp: Create_allocate_v4_def Let_def split: sum.splits)
qed





subsection \<open>Failures end \<open>Create\<close>\<close>















lemma extends_with_refl: "extends_with allowed h h"
  by (simp add: extends_with_def)




lemma extends_with_last:
  assumes "extends_with allowed h h'" and "h' \<noteq> h"
  shows "allowed (last h')"
proof -
  from assms obtain new where n: "h' = h @ new" "list_all allowed new" "new \<noteq> []"
    by (auto simp: extends_with_def)
  then have "last h' \<in> set new" by simp
  with n(2) show ?thesis by (simp add: list_all_iff)
qed














subsection \<open>The poller and its timeout\<close>

text \<open>
  The model has no clock: how many ticks the \<open>select\<close> of \<open>waitForJob\<close> delivers before
  the timeout is the environment's answer. What the loop itself guarantees is this. A
  job that every poll reports as pending makes the poller ask once per tick delivered
  and then return the timeout error; a job that the first poll reports as done makes it
  return \<open>nil\<close> after that one poll.
\<close>

lemma getClient_v3_twice [simp]: "getClient_v3 (getClient_v3 d) = getClient_v3 d"
  by (simp add: getClient_v3_def)

lemma waitForJob_loop_pending:
  assumes "\<And>h. \<exists>job rest. Job_List env h (LinodeId d) jobId False = Inr (job # rest) \<and>
                 job_JobId job = jobId \<and> job_HostSuccess job \<noteq> ''1''"
  shows "waitForJob_loop env jobId jobName t n d tr =
           (Return (Some (Err (''Job '' @ jobName @ '' timed out after '' @ showInt t
                                 @ '' seconds.''))),
            (if n = 0 then d else getClient_v3 d),
            tr @ replicate n (Job_List_call (LinodeId d) jobId False))"
  using assms
proof (induction n arbitrary: d tr)
  case 0
  then show ?case by simp
next
  case (Suc n)
  from Suc.prems[of tr] obtain job rest where
    j: "Job_List env tr (LinodeId d) jobId False = Inr (job # rest)"
       "job_JobId job = jobId" "job_HostSuccess job \<noteq> ''1''"
    by blast
  have "\<And>h. \<exists>job rest. Job_List env h (LinodeId (getClient_v3 d)) jobId False =
                Inr (job # rest) \<and> job_JobId job = jobId \<and> job_HostSuccess job \<noteq> ''1''"
    using Suc.prems by simp
  from Suc.IH[OF this, of "tr @ [Job_List_call (LinodeId d) jobId False]"] j
  show ?case
    by (simp add: Let_def replicate_app_Cons_same)
qed

lemma waitForJob_pending_times_out:
  assumes "\<And>h. \<exists>job rest. Job_List env h (LinodeId d) jobId False = Inr (job # rest) \<and>
                 job_JobId job = jobId \<and> job_HostSuccess job \<noteq> ''1''"
  shows "fst (waitForJob env d tr jobId jobName t) =
           Return (Some (Err (''Job '' @ jobName @ '' timed out after '' @ showInt t
                                @ '' seconds.''))) \<and>
         snd (snd (waitForJob env d tr jobId jobName t)) =
           tr @ replicate (select_ticks env tr) (Job_List_call (LinodeId d) jobId False)"
  by (simp add: waitForJob_def waitForJob_loop_pending[OF assms])

lemma waitForJob_done_at_once:
  assumes "select_ticks env tr = Suc n"
    and "Job_List env tr (LinodeId d) jobId False = Inr (job # rest)"
    and "job_JobId job = jobId" and "job_HostSuccess job = ''1''"
  shows "waitForJob env d tr jobId jobName t =
           (Return None, getClient_v3 d, tr @ [Job_List_call (LinodeId d) jobId False])"
  using assms by (simp add: waitForJob_tick)

subsection \<open>Complete runs and the identifier\<close>

lemma WaitForSpecific_loop_next:
  "0 < n \<Longrightarrow>
     WaitForSpecific_loop f m n d tr =
       (case f d tr of
          (Panic msg, d', tr') \<Rightarrow> (Panic msg, d', tr')
        | (Return stop, d', tr') \<Rightarrow>
            if stop then (Return None, d', tr')
            else WaitForSpecific_loop f m (n - 1) d' tr')"
  by (cases n) (auto split: prod.splits outcome.splits)

text \<open>
  A complete run of the legacy \<open>Create\<close>: every job is done at its first poll, the
  first status query fails and the second reports the Linode as running. \<open>Create\<close>
  succeeds, the failed query has been passed over, and the handle holds the identifier
  that the allocation returned.
\<close>

lemma Create_v3_retries_status_query:
  "Create_v3
     ((example_env_v3 [\<lparr>ip_IPAddress = ''203.0.113.9'', ip_IsPublic = 1\<rparr>] job_done
         [\<lparr>linode_Status = 1\<rparr>] 1)
        \<lparr>Linode_List := (\<lambda>h i. if Linode_List_call i \<in> set h
                                 then Inr [\<lparr>linode_Status = 1\<rparr>]
                                 else Inl (Err ''service unavailable''))\<rparr>)
     (NewDriver_v3 ''m'' ''/s'') [] =
     (Return None,
      (NewDriver_v3 ''m'' ''/s'')
        \<lparr>SSHKeyPath := ''/s/machines/m/id_rsa'', IPAddress := ''203.0.113.9'',
         client_v3 := Some '''', LinodeId := 4711\<rparr>,
      [GenerateSSHKey_call ''/s/machines/m/id_rsa'', ReadFile_call ''/s/machines/m/id_rsa.pub'',
       Linode_Create_call 0 0 0, Ip_List_call 4711 (- 1),
       Disk_CreateFromDistribution_call 0 4711 ''Primary Disk'' 24320
         [(''rootPass'', ''''), (''rootSSHKey'', ''ssh-rsa AAAA'')],
       Job_List_call 4711 1 False,
       Disk_Create_call 4711 ''swap'' ''Swap Disk'' 256,
       Job_List_call 4711 2 False,
       Config_Create_call 4711 0 ''My Docker Machine Configuration''
         [(''DiskList'', ''10,11''), (''RootDeviceNum'', ''1''), (''RootDeviceRO'', ''true''),
          (''helper_distro'', ''true'')],
       Linode_Boot_call 4711 (- 1),
       Job_List_call 4711 3 False,
       Linode_List_call 4711, Linode_List_call 4711])"
  by (simp add: Create_v3_def Create_discover_v3_def Create_disks_v3_def Create_boot_v3_def
      waitForJob_def WaitForSpecific_def WaitForSpecific_loop_next MachineInState_v3_def
      GetState_v3_def createSSHKey_def GetSSHKeyPath_def publicSSHKeyPath_def
      example_env_v3_def NewDriver_v3_def getClient_v3_def job_done_def Let_def
      showInt_def showNat.simps digit_def)

text \<open>
  The legacy \<open>Create\<close> records the identifier that the allocation returns, also when a
  later step fails; the current \<open>Create\<close> leaves the identifier as it finds it.
\<close>

lemma Create_v3_records_identifier:
  assumes "createSSHKey env d tr = (Inr publicKey, d1, tr1)"
    and "Linode_Create env tr1 (DataCenterId d1) (PlanId d1) (PaymentTerm d1) = Inr linodeId"
  shows "LinodeId (fst (snd (Create_v3 env d tr))) = linodeId"
proof -
  obtain x d3 tr4 where disc: "Create_discover_v3 env d tr = (x, d3, tr4)"
    by (cases "Create_discover_v3 env d tr")
  with assms have id3: "LinodeId d3 = linodeId"
    by (auto simp: Create_discover_v3_def Let_def getClient_v3_def
        split: option.splits sum.splits if_splits)
  show ?thesis
  proof (cases x)
    case (Inl e)
    with disc id3 show ?thesis by (simp add: Create_v3_def)
  next
    case (Inr found)
    obtain key ips where found: "found = (key, ips)"
      by (cases found)
    let ?d4 = "d3\<lparr>IPAddress := Create_addresses_v3 ips (IPAddress d3)\<rparr>"
    show ?thesis
    proof (cases "IPAddress ?d4 = []")
      case True
      with Inr found disc id3 show ?thesis by (simp add: Create_v3_def Let_def)
    next
      case False
      obtain r d' tr' where rest: "Create_disks_v3 env ?d4 tr4 key = (r, d', tr')"
        by (cases "Create_disks_v3 env ?d4 tr4 key")
      with False Inr found disc have "Create_v3 env d tr = (r, d', tr')"
        by (simp add: Create_v3_def Let_def)
      with Create_disks_v3_keeps[OF rest] id3 show ?thesis by simp
    qed
  qed
qed

lemma Create_v4_keeps_identifier:
  "InstanceID (fst (snd (Create_v4 env d tr))) = InstanceID d"
proof -
  obtain x d2 tr2 where al: "Create_allocate_v4 env d tr = (x, d2, tr2)"
    by (cases "Create_allocate_v4 env d tr")
  from Create_allocate_v4_keeps[OF al] al show ?thesis
    by (auto simp: Create_v4_def Let_def split: sum.splits option.splits)
qed

end
